theory Spec2Isabelle
  imports Complex_Main "HOL-Library.Sublist"
begin

section \<open>Python values shared by the model\<close>

text \<open>
  Exceptions are values: every function of the source that can raise returns
  \<open>py_error + 'a\<close>, with \<open>Inl\<close> for the exception. \<open>RemoteError\<close> stands for
  whatever exception a call into the SIRIUS service raises; the source logs it and
  re-raises it unchanged. Python floats are read as reals: the model keeps the
  arithmetic expressions of the source and leaves rounding out.
\<close>

datatype py_error =
    RuntimeError string
  | TypeError
  | ValueError
  | IndexError
  | RemoteError

section \<open>Feature normalizer (node.py)\<close>

subsection \<open>\<open>CDSirius._normalize_adduct\<close>\<close>

definition invalid_adducts :: "string list" where
  "invalid_adducts =
     [''2M'', ''+2'', ''+3'', ''-2'', ''-3'', ''MeOH'', ''ACN'', ''-e'', ''+e'']"

text \<open>\<open>d in adduct\<close> on two strings: \<open>d\<close> occurs in \<open>adduct\<close> as a contiguous run.\<close>

definition str_in :: "string \<Rightarrow> string \<Rightarrow> bool" where
  "str_in d adduct = sublist d adduct"

text \<open>The slice \<open>adduct[:-1]\<close>: everything but the last character; the empty
  string stays empty, the slice never raises.\<close>

definition slice_to_last :: "string \<Rightarrow> string" where
  "slice_to_last adduct = take (length adduct - 1) adduct"

definition normalize_adduct :: "real \<Rightarrow> real \<Rightarrow> int \<Rightarrow> string \<Rightarrow> real \<times> int \<times> string" where
  "normalize_adduct mz mw z adduct =
     (if list_ex (\<lambda>d. str_in d adduct) invalid_adducts then
        (if z < 0 then (mw - 1.00727663, - 1, slice_to_last ''[M-H]-1'')
         else (mw + 1.00727663, 1, slice_to_last ''[M+H]+1''))
      else (mz, z, slice_to_last adduct))"

subsection \<open>\<open>CDSirius._load_features\<close>\<close>

text \<open>
  The records of \<open>sirius_features.json\<close>, one field per key the source reads.
  An MS2 spectrum has the keys of the MS1 spectrum and two more.
\<close>

record ms1_json =
  Name :: string
  MSLevel :: int
  ScanNumber :: int
  Masses :: "real list"
  Intensities :: "real list"

record ms2_json = ms1_json +
  CollisionEnergies :: "real list"
  PrecursorMass :: real

record feature_json =
  Mass :: real
  MW :: real
  Charge :: int
  Adduct :: string
  ApexRT :: real
  ExternalID :: int
  LeftRT :: real
  RightRT :: real
  MS1Spectrum :: ms1_json
  MS2Spectra :: "ms2_json list"

text \<open>The dictionaries handed to the service. The feature's key \<open>name\<close> is the
  field \<open>feature_name\<close>, the spectra keep \<open>name\<close>.\<close>

record peak =
  mz :: real
  intensity :: real

record ms1_input =
  name :: string
  msLevel :: int
  scanNumber :: int
  peaks :: "peak list"

record ms2_input = ms1_input +
  collisionEnergy :: string
  precursorMz :: real

record feature_input =
  feature_name :: string
  externalFeatureId :: string
  ionMass :: real
  charge :: int
  detectedAdducts :: "string list"
  rtStartSeconds :: real
  rtEndSeconds :: real
  mergedMs1 :: ms1_input
  ms2Spectra :: "ms2_input list"

text \<open>Python's conversions of numbers to text are parameters of the model:
  \<open>fixed n x\<close> is \<open>f"{x:.nf}"\<close>, \<open>str_int\<close> and \<open>str_float\<close> are \<open>str\<close>.\<close>

record py_format =
  fixed :: "nat \<Rightarrow> real \<Rightarrow> string"
  str_int :: "int \<Rightarrow> string"
  str_float :: "real \<Rightarrow> string"

text \<open>\<open>[{'mz': d[0], 'intensity': d[1]} for d in zip(masses, intensities)]\<close>:
  \<open>zip\<close> stops at the end of the shorter list.\<close>

definition make_peaks :: "real list \<Rightarrow> real list \<Rightarrow> peak list" where
  "make_peaks masses intensities =
     map (\<lambda>d. \<lparr>mz = fst d, intensity = snd d\<rparr>) (zip masses intensities)"

definition load_ms1 :: "ms1_json \<Rightarrow> ms1_input" where
  "load_ms1 s =
     \<lparr>name = Name s, msLevel = MSLevel s, scanNumber = ScanNumber s,
      peaks = make_peaks (Masses s) (Intensities s)\<rparr>"

text \<open>\<open>spectrum["CollisionEnergies"][0]\<close> raises IndexError on an empty list.\<close>

definition load_ms2 :: "py_format \<Rightarrow> ms2_json \<Rightarrow> py_error + ms2_input" where
  "load_ms2 fmt spectrum =
     (case CollisionEnergies spectrum of
        [] \<Rightarrow> Inl IndexError
      | e # _ \<Rightarrow>
          Inr \<lparr>name = Name spectrum, msLevel = MSLevel spectrum,
               scanNumber = ScanNumber spectrum,
               peaks = make_peaks (Masses spectrum) (Intensities spectrum),
               collisionEnergy = str_float fmt e,
               precursorMz = PrecursorMass spectrum\<rparr>)"

fun load_ms2_spectra :: "py_format \<Rightarrow> ms2_json list \<Rightarrow> py_error + ms2_input list" where
  "load_ms2_spectra fmt [] = Inr []"
| "load_ms2_spectra fmt (spectrum # rest) =
     (case load_ms2 fmt spectrum of
        Inl e \<Rightarrow> Inl e
      | Inr ms2 \<Rightarrow>
          (case load_ms2_spectra fmt rest of
             Inl e \<Rightarrow> Inl e
           | Inr out \<Rightarrow> Inr (ms2 # out)))"

definition load_feature :: "py_format \<Rightarrow> feature_json \<Rightarrow> py_error + feature_input" where
  "load_feature fmt feat =
     (case normalize_adduct (Mass feat) (MW feat) (Charge feat) (Adduct feat) of
        (mass, z, adduct) \<Rightarrow>
          (case load_ms2_spectra fmt (MS2Spectra feat) of
             Inl e \<Rightarrow> Inl e
           | Inr ms2 \<Rightarrow>
               Inr \<lparr>feature_name = fixed fmt 5 (MW feat) @ ''@'' @ fixed fmt 3 (ApexRT feat),
                    externalFeatureId = str_int fmt (ExternalID feat),
                    ionMass = mass,
                    charge = z,
                    detectedAdducts = [adduct],
                    rtStartSeconds = LeftRT feat * 60,
                    rtEndSeconds = RightRT feat * 60,
                    mergedMs1 = load_ms1 (MS1Spectrum feat),
                    ms2Spectra = ms2\<rparr>))"

fun load_features :: "py_format \<Rightarrow> feature_json list \<Rightarrow> py_error + feature_input list" where
  "load_features fmt [] = Inr []"
| "load_features fmt (feat # rest) =
     (case load_feature fmt feat of
        Inl e \<Rightarrow> Inl e
      | Inr feat_input \<Rightarrow>
          (case load_features fmt rest of
             Inl e \<Rightarrow> Inl e
           | Inr features \<Rightarrow> Inr (feat_input # features)))"

subsection \<open>\<open>CDSirius._load_params\<close>: the elemental constraints\<close>

text \<open>
  \<open>re.findall("([A-Z][a-z]*)(\d*)?", text)\<close> scans the text from the left. At an
  upper-case letter a match starts: it takes the letter, the longest run of
  lower-case letters after it and then the longest run of digits, and the scan goes
  on behind the match. Any other character starts no match and is passed over.
  The result lists the two groups of every match.
\<close>

definition is_upper :: "char \<Rightarrow> bool" where
  "is_upper c = (c \<in> set ''ABCDEFGHIJKLMNOPQRSTUVWXYZ'')"

definition is_lower :: "char \<Rightarrow> bool" where
  "is_lower c = (c \<in> set ''abcdefghijklmnopqrstuvwxyz'')"

definition is_digit :: "char \<Rightarrow> bool" where
  "is_digit c = (c \<in> set ''0123456789'')"

function findall_elements :: "string \<Rightarrow> (string \<times> string) list" where
  "findall_elements [] = []"
| "findall_elements (c # cs) =
     (if is_upper c then
        (c # takeWhile is_lower cs,
         takeWhile is_digit (dropWhile is_lower cs))
          # findall_elements (dropWhile is_digit (dropWhile is_lower cs))
      else findall_elements cs)"
  by pat_completeness auto
termination
proof (relation "measure length")
  show "wf (measure length)" by simp
next
  fix c :: char and cs :: string
  have "length (dropWhile is_digit (dropWhile is_lower cs)) \<le> length (dropWhile is_lower cs)"
    by (rule length_dropWhile_le)
  also have "\<dots> \<le> length cs"
    by (rule length_dropWhile_le)
  finally show "(dropWhile is_digit (dropWhile is_lower cs), c # cs) \<in> measure length"
    by simp
next
  fix c :: char and cs :: string
  show "(cs, c # cs) \<in> measure length" by simp
qed

text \<open>\<open>"".join(f"{e}[{c}]" for e, c in constraints)\<close>\<close>

definition enforced_formula_constraints :: "string \<Rightarrow> string" where
  "enforced_formula_constraints text =
     concat (map (\<lambda>(e, c). e @ ''['' @ c @ '']'') (findall_elements text))"

section \<open>Session manager and job orchestrator (sirius.py)\<close>

text \<open>The settings of \<open>SiriusConfig\<close> that the modelled functions read.\<close>

record sirius_config =
  account_username :: string
  account_password :: string
  canopus_enabled :: bool
  fingerprint_prediction_save :: bool
  structure_db_search_enabled :: bool
  structure_db_search_dbs :: "string list"
  structure_db_search_candidates :: int
  ms_novelist_enabled :: bool
  ms_novelist_candidates :: int

text \<open>
  What the service answers during session acquisition. \<open>attach_to_sirius\<close> and
  \<open>start_sirius\<close> raise, return nothing (a falsy handle) or return an API handle;
  \<open>is_logged_in\<close> answers a boolean; \<open>login\<close> raises or succeeds.
\<close>

datatype sdk_answer = Raises | NoHandle | Handle

record service =
  attach_to_sirius :: sdk_answer
  start_sirius :: sdk_answer
  is_logged_in :: bool
  login_raises :: bool

text \<open>The session records the lines it logs (message and level) and the calls it
  makes into the service, both in order.\<close>

record session =
  logged :: "(string \<times> string) list"
  calls :: "string list"

definition log_line :: "string \<Rightarrow> string \<Rightarrow> session \<Rightarrow> session" where
  "log_line message level s = s\<lparr>logged := logged s @ [(message, level)]\<rparr>"

definition call :: "string \<Rightarrow> session \<Rightarrow> session" where
  "call operation s = s\<lparr>calls := calls s @ [operation]\<rparr>"

definition connect :: "service \<Rightarrow> session \<Rightarrow> (py_error + bool) \<times> session" where
  "connect svc s0 =
     (let s1 = log_line ''Connecting to SIRIUS service...'' ''TEMP'' s0;
          s2 = call ''attach_to_sirius'' s1
      in case attach_to_sirius svc of
           Raises \<Rightarrow> (Inl RemoteError, log_line ''Unable to connect to SIRIUS service!'' ''ERROR'' s2)
         | Handle \<Rightarrow> (Inr True, log_line ''Connected to running SIRIUS service.'' ''VERBOSE'' s2)
         | NoHandle \<Rightarrow> (Inr False, log_line ''Unable to find running SIRIUS service.'' ''VERBOSE'' s2))"

definition start :: "service \<Rightarrow> session \<Rightarrow> (py_error + bool) \<times> session" where
  "start svc s0 =
     (let s1 = log_line ''Starting new SIRIUS service...'' ''TEMP'' s0;
          s2 = call ''start_sirius'' s1
      in case start_sirius svc of
           Raises \<Rightarrow> (Inl RemoteError, log_line ''Unable to start SIRIUS service!'' ''ERROR'' s2)
         | Handle \<Rightarrow> (Inr True, log_line ''SIRIUS service started.'' ''VERBOSE'' s2)
         | NoHandle \<Rightarrow> (Inr False, log_line ''Unable to start SIRIUS service.'' ''VERBOSE'' s2))"

definition login :: "sirius_config \<Rightarrow> service \<Rightarrow> session \<Rightarrow> (py_error + bool) \<times> session" where
  "login config svc s0 =
     (let s1 = log_line ''Connecting to SIRIUS user account...'' ''TEMP'' s0;
          s2 = call ''is_logged_in'' s1
      in if is_logged_in svc then
           (Inr True, log_line ''SIRIUS account already connected.'' ''VERBOSE'' s2)
         else if account_username config = [] \<or> account_password config = [] then
           (Inr False, log_line ''SIRIUS account credentials not specified!'' ''WARNING'' s2)
         else
           (let s3 = call ''login'' s2
            in if login_raises svc then
                 (Inl RemoteError, log_line ''Unable to login to SIRIUS account!'' ''ERROR'' s3)
               else (Inr True, log_line ''SIRIUS account connected.'' ''VERBOSE'' s3)))"

text \<open>The second half of \<open>Sirius.__enter__\<close>: log in or raise.\<close>

definition enter_login :: "sirius_config \<Rightarrow> service \<Rightarrow> session \<Rightarrow> (py_error + unit) \<times> session" where
  "enter_login config svc s =
     (case login config svc s of
        (Inl e, s') \<Rightarrow> (Inl e, s')
      | (Inr ok, s') \<Rightarrow>
          if \<not> ok then (Inl (RuntimeError ''Unable to login to SIRIUS account!''), s')
          else (Inr (), s'))"

text \<open>\<open>Sirius.__enter__\<close>: \<open>Inr ()\<close> is the acquired session (\<open>return self\<close>).\<close>

definition enter :: "sirius_config \<Rightarrow> service \<Rightarrow> (py_error + unit) \<times> session" where
  "enter config svc =
     (case connect svc \<lparr>logged = [], calls = []\<rparr> of
        (Inl e, s1) \<Rightarrow> (Inl e, s1)
      | (Inr attached, s1) \<Rightarrow>
          if \<not> attached then
            (case start svc s1 of
               (Inl e, s2) \<Rightarrow> (Inl e, s2)
             | (Inr started, s2) \<Rightarrow>
                 if \<not> started then
                   (Inl (RuntimeError ''Unable to connect or start SIRIUS service!''), s2)
                 else enter_login config svc s2)
          else enter_login config svc s1)"

subsection \<open>\<open>Sirius.start_job\<close>\<close>

text \<open>
  One answer of \<open>get_job\<close>: the \<open>progress\<close> object of the job. The state is the
  service's string; the two counters may be missing (\<open>None\<close>).
\<close>

record job_progress =
  state :: string
  current_progress :: "int option"
  max_progress :: "int option"

text \<open>\<open>if progress_max:\<close> holds for a number other than zero.\<close>

definition truthy :: "int option \<Rightarrow> bool" where
  "truthy v = (case v of None \<Rightarrow> False | Some n \<Rightarrow> n \<noteq> 0)"

text \<open>
  The polling loop, run against the answers the service gives to the successive
  \<open>get_job\<close> calls. Every round of the loop makes three calls: the first is read for
  the state, the second for \<open>current_progress\<close>, the third for \<open>max_progress\<close>.
  The argument \<open>n\<close> counts the calls made so far, and the result carries the count at
  the return. \<open>progress/progress_max\<close> raises TypeError when \<open>progress\<close> is
  \<open>None\<close>. The loop has no bound of its own: \<open>None\<close> says that it is still
  polling when the recorded answers end. Log lines and the sleep between rounds are
  left out.
\<close>

fun poll :: "job_progress list \<Rightarrow> nat \<Rightarrow> ((py_error + bool) \<times> nat) option" where
  "poll (j1 # j2 # j3 # answers) n =
     (if truthy (max_progress j3) \<and> current_progress j2 = None then Some (Inl TypeError, n + 3)
      else if state j1 = ''DONE'' then Some (Inr True, n + 3)
      else if state j1 = ''CANCELED'' then Some (Inr False, n + 3)
      else if state j1 = ''FAILED'' then Some (Inr False, n + 3)
      else poll answers (n + 3))"
| "poll _ n = None"

text \<open>\<open>start_job\<close>: the submission raises or succeeds, then the loop runs.\<close>

definition start_job :: "bool \<Rightarrow> job_progress list \<Rightarrow> ((py_error + bool) \<times> nat) option" where
  "start_job submit_raises answers =
     (if submit_raises then Some (Inl RemoteError, 0) else poll answers 0)"

text \<open>The three stage switches of the job that the harvester reads, as
  \<open>Sirius.init_job\<close> sets them from the configuration.\<close>

record job =
  structure_db_search_params_enabled :: bool
  canopus_params_enabled :: bool
  ms_novelist_params_enabled :: bool

definition init_job :: "sirius_config \<Rightarrow> job" where
  "init_job config =
     (if structure_db_search_enabled config then
        \<lparr>structure_db_search_params_enabled = True,
         canopus_params_enabled = canopus_enabled config,
         ms_novelist_params_enabled = ms_novelist_enabled config\<rparr>
      else
        \<lparr>structure_db_search_params_enabled = False,
         canopus_params_enabled = False,
         ms_novelist_params_enabled = False\<rparr>)"

section \<open>Result harvester and table finalizer (sirius.py)\<close>

subsection \<open>Tables\<close>

text \<open>
  A pandas DataFrame is the list of its rows in order, each with its index label.
  \<open>DataFrame.from_dict\<close> on a list of dictionaries labels the rows \<open>0, 1, 2, \<dots>\<close>.
  Operations that act inside a row (adding a column computed from the row, dropping
  and renaming columns, casting a column) keep the rows and their labels; of these
  the model keeps only the columns it names.
\<close>

type_synonym 'r frame = "(nat \<times> 'r) list"

definition DataFrame :: "'r list \<Rightarrow> 'r frame" where
  "DataFrame rows = zip [0..<length rows] rows"

text \<open>\<open>df[mask]\<close>, \<open>df.index\<close>, \<open>df.drop(labels)\<close> and a column assignment.\<close>

definition select_rows :: "('r \<Rightarrow> bool) \<Rightarrow> 'r frame \<Rightarrow> 'r frame" where
  "select_rows selected df = filter (\<lambda>(i, r). selected r) df"

definition index_of :: "'r frame \<Rightarrow> nat list" where
  "index_of df = map fst df"

definition drop_labels :: "nat list \<Rightarrow> 'r frame \<Rightarrow> 'r frame" where
  "drop_labels labels df = filter (\<lambda>(i, r). i \<notin> set labels) df"

definition assign :: "('r \<Rightarrow> 's) \<Rightarrow> 'r frame \<Rightarrow> 's frame" where
  "assign f df = map (\<lambda>(i, r). (i, f r)) df"

text \<open>
  \<open>pandas.concat([left, right], axis=1)\<close> puts the columns of two frames side by
  side, joining the rows on their index labels: a label of both frames gives one
  row with the columns of both, a label of one frame only gives a row whose columns
  of the other frame are missing. The rows follow the labels of the left frame,
  then the labels that only the right frame has. The labels of each frame are
  distinct wherever the model uses it.
\<close>

definition concat_columns :: "'a frame \<Rightarrow> 'b frame \<Rightarrow> ('a option \<times> 'b option) frame" where
  "concat_columns left right =
     map (\<lambda>(i, a). (i, (Some a, map_of right i))) left
     @ map (\<lambda>(i, b). (i, (None, Some b)))
         (filter (\<lambda>(i, b). i \<notin> set (index_of left)) right)"

text \<open>\<open>pandas.concat(frames, ignore_index=True)\<close> on DataFrames: the rows of all
  frames in order, labelled anew.\<close>

definition concat_frames :: "'r frame list \<Rightarrow> 'r frame" where
  "concat_frames frames = DataFrame (concat (map (map snd) frames))"

text \<open>
  What the formulas buffer holds: a DataFrame, or the tuple \<open>(None, None)\<close> that
  \<open>_retrieve_formulas\<close> returns for a feature without candidates.
  \<open>pandas.concat\<close> accepts DataFrames only: it raises TypeError on a tuple, and
  ValueError on an empty list.
\<close>

datatype 'r fragment = Table "'r frame" | NonePair

fun is_table :: "'r fragment \<Rightarrow> bool" where
  "is_table (Table df) = True"
| "is_table NonePair = False"

fun table_rows :: "'r fragment \<Rightarrow> 'r list" where
  "table_rows (Table df) = map snd df"
| "table_rows NonePair = []"

definition pandas_concat :: "'r fragment list \<Rightarrow> py_error + 'r frame" where
  "pandas_concat objs =
     (if objs = [] then Inl ValueError
      else if \<not> list_all is_table objs then Inl TypeError
      else Inr (DataFrame (concat (map table_rows objs))))"

subsection \<open>What the service holds after the job\<close>

text \<open>
  A formula candidate with the fields the harvester reads; \<open>compoundClasses\<close> is
  the \<open>classyFireLineage\<close> list of the candidate's compound classes, \<open>None\<close> when
  the candidate has none. A structure candidate with its rank, which may be missing,
  and its database links, each the name of a database and the candidate's ID there.
  The remaining fields ride along as \<open>formula_data\<close> and \<open>structure_data\<close>.
\<close>

record db_link =
  link_name :: string
  link_id :: "string option"

record ('n, 'c) formula_candidate =
  formulaId :: string
  predictedFingerprint :: "real list option"
  compoundClasses :: "'n list option"
  formula_data :: 'c

record 'q structure_candidate =
  rank :: "int option"
  dbLinks :: "db_link list"
  structure_data :: 'q

text \<open>An aligned feature of the project with its candidate lists.
  \<open>formula_annotation\<close> is the formula ID of the top formula annotation, \<open>None\<close>
  when the feature has no formula annotation.\<close>

record ('n, 'c, 'q) aligned_feature =
  external_feature_id :: string
  feature_label :: string
  formula_annotation :: "string option"
  formula_candidates :: "('n, 'c) formula_candidate list"
  structure_candidates :: "'q structure_candidate list"
  de_novo_structure_candidates :: "'q structure_candidate list"

subsection \<open>Rows of the result tables\<close>

record annotation =
  annotation_ExternalID :: string
  FeatureName :: string
  topFingerprint :: "real list option"

record 'c candidate_row =
  candidate_ExternalID :: string
  candidate :: 'c

record 'n class_row =
  class_ExternalID :: string
  SiriusFormulaID :: string
  TreeID :: int
  class_node :: 'n

text \<open>
  The database IDs of one candidate: the dictionary from the upper-case database
  names of the configuration to the candidate's ID there, \<open>None\<close> where it has
  none. A row of a structures table: the columns of the candidate and the columns
  of its database IDs, each missing where the join found no row of that frame.
\<close>

type_synonym db_ids = "string \<rightharpoonup> string option"

type_synonym 'q structure_row = "'q structure_candidate candidate_row option \<times> db_ids option"

subsection \<open>Per-feature retrieval\<close>

definition retrieve_annotation :: "string \<Rightarrow> ('n, 'c, 'q) aligned_feature \<Rightarrow> annotation" where
  "retrieve_annotation ext_id feat =
     \<lparr>annotation_ExternalID = ext_id, FeatureName = feature_label feat, topFingerprint = None\<rparr>"

text \<open>
  \<open>_retrieve_formulas\<close>. It updates the dictionary \<open>top_annotation\<close> in place, so the
  model returns the annotation with the table. \<open>.item()\<close> raises ValueError unless
  exactly one candidate has the top formula ID.
\<close>

definition retrieve_formulas ::
  "sirius_config \<Rightarrow> string \<Rightarrow> ('n, 'c) formula_candidate list \<Rightarrow> annotation \<Rightarrow> string \<Rightarrow>
   py_error + (('n, 'c) formula_candidate candidate_row fragment \<times> annotation)" where
  "retrieve_formulas config ext_id candidates top_annotation top_formula_id =
     (let candidates_df = DataFrame candidates in
      if candidates_df = [] then Inr (NonePair, top_annotation)
      else if fingerprint_prediction_save config then
        (case filter (\<lambda>c. formulaId c = top_formula_id) candidates of
           [c] \<Rightarrow>
             Inr (Table (assign (\<lambda>c. \<lparr>candidate_ExternalID = ext_id, candidate = c\<rparr>) candidates_df),
                  top_annotation\<lparr>topFingerprint :=
                    Some (case predictedFingerprint c of None \<Rightarrow> [] | Some fp \<Rightarrow> fp)\<rparr>)
         | _ \<Rightarrow> Inl ValueError)
      else
        Inr (Table (assign (\<lambda>c. \<lparr>candidate_ExternalID = ext_id, candidate = c\<rparr>) candidates_df),
             top_annotation))"

text \<open>
  The loop of \<open>_retrieve_classes\<close> over the candidates: a candidate with compound
  classes gives one table, the rows of its lineage, all with the current tree ID;
  then the counter \<open>tree_id[0]\<close> goes up by one. The result is the list of tables
  and the counter after the loop.
\<close>

fun class_tables ::
  "string \<Rightarrow> ('n, 'c) formula_candidate list \<Rightarrow> int \<Rightarrow> 'n class_row frame list \<times> int" where
  "class_tables ext_id [] tree_id = ([], tree_id)"
| "class_tables ext_id (cmpd_class # rest) tree_id =
     (case compoundClasses cmpd_class of
        None \<Rightarrow> class_tables ext_id rest tree_id
      | Some lineage \<Rightarrow>
          (case class_tables ext_id rest (tree_id + 1) of
             (classes, tree_id') \<Rightarrow>
               (assign (\<lambda>n. \<lparr>class_ExternalID = ext_id,
                              SiriusFormulaID = formulaId cmpd_class,
                              TreeID = tree_id,
                              class_node = n\<rparr>) (DataFrame lineage) # classes,
                tree_id')))"

definition retrieve_classes ::
  "job \<Rightarrow> string \<Rightarrow> ('n, 'c) formula_candidate list \<Rightarrow> int \<Rightarrow>
   'n class_row frame list option \<times> int" where
  "retrieve_classes jb ext_id candidates tree_id =
     (if \<not> canopus_params_enabled jb then (None, tree_id)
      else if candidates = [] then (None, tree_id)
      else (case class_tables ext_id candidates tree_id of
              (classes, tree_id') \<Rightarrow> (Some classes, tree_id')))"

text \<open>
  The rank cap,
  \<open>candidates_df.drop(candidates_df[candidates_df['rank'] > max_rank].index)\<close>.
  A missing rank compares false with every number.
\<close>

definition rank_exceeds :: "int \<Rightarrow> 'q structure_candidate \<Rightarrow> bool" where
  "rank_exceeds max_rank c = (case rank c of None \<Rightarrow> False | Some k \<Rightarrow> k > max_rank)"

definition cap_rank :: "int \<Rightarrow> 'q structure_candidate frame \<Rightarrow> 'q structure_candidate frame" where
  "cap_rank max_rank candidates_df =
     drop_labels (index_of (select_rows (rank_exceeds max_rank) candidates_df)) candidates_df"

text \<open>\<open>str.upper()\<close> on ASCII text.\<close>

definition upper_char :: "char \<Rightarrow> char" where
  "upper_char c =
     (case map_of (zip ''abcdefghijklmnopqrstuvwxyz'' ''ABCDEFGHIJKLMNOPQRSTUVWXYZ'') c of
        None \<Rightarrow> c
      | Some u \<Rightarrow> u)"

definition str_upper :: "string \<Rightarrow> string" where
  "str_upper s = map upper_char s"

text \<open>
  \<open>_retrieve_db_ids\<close>. For one candidate and one configured database: the ID of
  the first link whose name is the database's, names compared in upper case;
  \<open>None\<close> without such a link. The dictionary of a candidate has one entry per
  configured database; the function returns the dictionaries of the rows of the
  frame, in order.
\<close>

definition db_id_of :: "db_link list \<Rightarrow> string \<Rightarrow> string option" where
  "db_id_of links db_name =
     (case find (\<lambda>d. str_upper (link_name d) = db_name) links of
        None \<Rightarrow> None
      | Some d \<Rightarrow> link_id d)"

definition link_ids :: "string list \<Rightarrow> db_link list \<Rightarrow> db_ids" where
  "link_ids dbs links =
     fold (\<lambda>db_name ids. ids(str_upper db_name \<mapsto> db_id_of links (str_upper db_name)))
       dbs Map.empty"

definition retrieve_db_ids ::
  "sirius_config \<Rightarrow> 'q structure_candidate candidate_row frame \<Rightarrow> db_ids list" where
  "retrieve_db_ids config candidates_df =
     map (\<lambda>(i, row). link_ids (structure_db_search_dbs config) (dbLinks (candidate row)))
       candidates_df"

text \<open>
  \<open>_retrieve_structures\<close> and \<open>_retrieve_denovo\<close>. After the rank cap the rows of
  \<open>candidates_df\<close> keep the labels they had, and \<open>link_df\<close> is a new frame with the
  labels \<open>0, 1, 2, \<dots>\<close>; \<open>pandas.concat(axis=1)\<close> joins the two on the labels.
  The columns dropped and renamed afterwards are left out.
\<close>

definition retrieve_structures ::
  "sirius_config \<Rightarrow> job \<Rightarrow> string \<Rightarrow> 'q structure_candidate list \<Rightarrow>
   'q structure_row frame option" where
  "retrieve_structures config jb ext_id candidates =
     (if \<not> structure_db_search_params_enabled jb then None
      else if DataFrame candidates = [] then None
      else
        (let candidates_df =
               assign (\<lambda>c. \<lparr>candidate_ExternalID = ext_id, candidate = c\<rparr>)
                 (cap_rank (structure_db_search_candidates config) (DataFrame candidates));
             link_df = DataFrame (retrieve_db_ids config candidates_df)
         in Some (concat_columns candidates_df link_df)))"

definition retrieve_denovo ::
  "sirius_config \<Rightarrow> job \<Rightarrow> string \<Rightarrow> 'q structure_candidate list \<Rightarrow>
   'q structure_row frame option" where
  "retrieve_denovo config jb ext_id candidates =
     (if \<not> ms_novelist_params_enabled jb then None
      else if DataFrame candidates = [] then None
      else
        (let candidates_df =
               assign (\<lambda>c. \<lparr>candidate_ExternalID = ext_id, candidate = c\<rparr>)
                 (cap_rank (ms_novelist_candidates config) (DataFrame candidates));
             link_df = DataFrame (retrieve_db_ids config candidates_df)
         in Some (concat_columns candidates_df link_df)))"

subsection \<open>\<open>Sirius.retrieve_results\<close>\<close>

text \<open>The buffers of the harvest loop and the tree ID counter \<open>class_tree_id[0]\<close>.\<close>

record ('n, 'c, 'q) buffers =
  annotations :: "annotation list"
  formulas :: "('n, 'c) formula_candidate candidate_row fragment list"
  structures :: "'q structure_row frame list"
  classes :: "'n class_row frame list"
  denovo :: "'q structure_row frame list"
  class_tree_id :: int

definition init_buffers :: "('n, 'c, 'q) buffers" where
  "init_buffers =
     \<lparr>annotations = [], formulas = [], structures = [], classes = [], denovo = [],
      class_tree_id = 1\<rparr>"

text \<open>\<open>if table is not None: buffer.append(table)\<close>\<close>

definition append_some :: "'a list \<Rightarrow> 'a option \<Rightarrow> 'a list" where
  "append_some buffer table = (case table of None \<Rightarrow> buffer | Some t \<Rightarrow> buffer @ [t])"

text \<open>
  The loop over the features. A feature without formula annotation is passed over.
  The annotation is appended before \<open>_retrieve_formulas\<close> updates it in place, so
  the buffer holds the updated annotation. \<open>_retrieve_formulas\<close> never returns
  \<open>None\<close>: what it returns is always appended to the formulas buffer.
\<close>

fun retrieve_loop ::
  "sirius_config \<Rightarrow> job \<Rightarrow> ('n, 'c, 'q) aligned_feature list \<Rightarrow> ('n, 'c, 'q) buffers \<Rightarrow>
   py_error + ('n, 'c, 'q) buffers" where
  "retrieve_loop config jb [] b = Inr b"
| "retrieve_loop config jb (feature # rest) b =
     (case formula_annotation feature of
        None \<Rightarrow> retrieve_loop config jb rest b
      | Some top_formula_id \<Rightarrow>
          (case retrieve_formulas config (external_feature_id feature)
                  (formula_candidates feature)
                  (retrieve_annotation (external_feature_id feature) feature)
                  top_formula_id of
             Inl e \<Rightarrow> Inl e
           | Inr (table, top_annotation) \<Rightarrow>
               (case retrieve_classes jb (external_feature_id feature)
                       (formula_candidates feature) (class_tree_id b) of
                  (tables, tree_id) \<Rightarrow>
                    retrieve_loop config jb rest
                      \<lparr>annotations = annotations b @ [top_annotation],
                       formulas = formulas b @ [table],
                       structures = append_some (structures b)
                         (retrieve_structures config jb (external_feature_id feature)
                            (structure_candidates feature)),
                       classes = classes b @ (case tables of None \<Rightarrow> [] | Some ts \<Rightarrow> ts),
                       denovo = append_some (denovo b)
                         (retrieve_denovo config jb (external_feature_id feature)
                            (de_novo_structure_candidates feature)),
                       class_tree_id = tree_id\<rparr>)))"

text \<open>
  \<open>_retrieve_fingerprints\<close>: without fingerprint persistence it returns
  \<open>(None, None)\<close>. With it, the two tables come from a further service call and
  from pandas; that part is the parameter \<open>fingerprint_tables\<close>.
\<close>

definition retrieve_fingerprints ::
  "sirius_config \<Rightarrow> (annotation list \<Rightarrow> py_error + ('f option \<times> 'd option)) \<Rightarrow>
   annotation list \<Rightarrow> py_error + ('f option \<times> 'd option)" where
  "retrieve_fingerprints config fingerprint_tables anns =
     (if \<not> fingerprint_prediction_save config then Inr (None, None)
      else fingerprint_tables anns)"

subsection \<open>Table finalizer\<close>

definition finalize_annotations :: "annotation list \<Rightarrow> annotation frame option" where
  "finalize_annotations anns =
     (if anns = [] then None
      else Some (assign (\<lambda>a. a\<lparr>topFingerprint := None\<rparr>) (DataFrame anns)))"

definition finalize_formulas :: "'r fragment list \<Rightarrow> py_error + 'r frame option" where
  "finalize_formulas tables =
     (if tables = [] then Inr None
      else (case pandas_concat tables of Inl e \<Rightarrow> Inl e | Inr table \<Rightarrow> Inr (Some table)))"

definition finalize_classes :: "'r frame list \<Rightarrow> 'r frame option" where
  "finalize_classes tables = (if tables = [] then None else Some (concat_frames tables))"

definition finalize_structures :: "'r frame list \<Rightarrow> 'r frame option" where
  "finalize_structures tables = (if tables = [] then None else Some (concat_frames tables))"

definition finalize_denovo :: "'r frame list \<Rightarrow> 'r frame option" where
  "finalize_denovo tables = (if tables = [] then None else Some (concat_frames tables))"

record ('n, 'c, 'q, 'f, 'd) results =
  SiriusTopAnnotations :: "annotation frame option"
  SiriusFormulas :: "('n, 'c) formula_candidate candidate_row frame option"
  SiriusClasses :: "'n class_row frame option"
  SiriusStructures :: "'q structure_row frame option"
  SiriusDeNovoStructures :: "'q structure_row frame option"
  SiriusFingerprints :: "'f option"
  SiriusFingerprintDefinitions :: "'d option"

definition retrieve_results ::
  "sirius_config \<Rightarrow> job \<Rightarrow> (annotation list \<Rightarrow> py_error + ('f option \<times> 'd option)) \<Rightarrow>
   ('n, 'c, 'q) aligned_feature list \<Rightarrow> py_error + ('n, 'c, 'q, 'f, 'd) results" where
  "retrieve_results config jb fingerprint_tables features =
     (case retrieve_loop config jb features init_buffers of
        Inl e \<Rightarrow> Inl e
      | Inr b \<Rightarrow>
          (case retrieve_fingerprints config fingerprint_tables (annotations b) of
             Inl e \<Rightarrow> Inl e
           | Inr (predictions, definitions) \<Rightarrow>
               (case finalize_formulas (formulas b) of
                  Inl e \<Rightarrow> Inl e
                | Inr formulas_table \<Rightarrow>
                    Inr \<lparr>SiriusTopAnnotations = finalize_annotations (annotations b),
                         SiriusFormulas = formulas_table,
                         SiriusClasses = finalize_classes (classes b),
                         SiriusStructures = finalize_structures (structures b),
                         SiriusDeNovoStructures = finalize_denovo (denovo b),
                         SiriusFingerprints = predictions,
                         SiriusFingerprintDefinitions = definitions\<rparr>)))"

subsection \<open>\<open>CDSirius._export_results\<close>\<close>

text \<open>The files written, by name: one for every table that is not \<open>None\<close>.\<close>

definition artifact :: "string \<Rightarrow> 'a option \<Rightarrow> string list" where
  "artifact path table = (case table of None \<Rightarrow> [] | Some t \<Rightarrow> [path])"

definition export_results :: "string \<Rightarrow> ('n, 'c, 'q, 'f, 'd) results \<Rightarrow> string list" where
  "export_results fingerprints_path res =
     artifact ''sirius_top_annotations.json'' (SiriusTopAnnotations res)
     @ artifact ''sirius_formulas.json'' (SiriusFormulas res)
     @ artifact ''sirius_classes.json'' (SiriusClasses res)
     @ artifact ''sirius_structures.json'' (SiriusStructures res)
     @ artifact ''sirius_denovo_structures.json'' (SiriusDeNovoStructures res)
     @ artifact (fingerprints_path @ ''_fingerprints.txt'') (SiriusFingerprints res)
     @ artifact (fingerprints_path @ ''_FPkey.txt'') (SiriusFingerprintDefinitions res)"

text \<open>The part of \<open>CDSirius.run\<close> behind the job: retrieve, then export. An
  exception of the retrieval ends the run (\<open>exit(1)\<close>) before anything is
  exported.\<close>

definition harvest_and_export ::
  "sirius_config \<Rightarrow> job \<Rightarrow> (annotation list \<Rightarrow> py_error + ('f option \<times> 'd option)) \<Rightarrow>
   string \<Rightarrow> ('n, 'c, 'q) aligned_feature list \<Rightarrow> py_error + string list" where
  "harvest_and_export config jb fingerprint_tables fingerprints_path features =
     (case retrieve_results config jb fingerprint_tables features of
        Inl e \<Rightarrow> Inl e
      | Inr res \<Rightarrow> Inr (export_results fingerprints_path res))"

section \<open>Notions used to state the properties\<close>

text \<open>
  An element token of a constraint text: an element symbol (an upper-case letter
  followed by lower-case letters, possibly none) and a digit string, possibly empty.
  The characters are ASCII.
\<close>

fun element_token :: "string \<times> string \<Rightarrow> bool" where
  "element_token (e, c) =
     ((case e of [] \<Rightarrow> False | u # ls \<Rightarrow> is_upper u \<and> list_all is_lower ls)
      \<and> list_all is_digit c)"

text \<open>A text at whose start the scan of \<open>findall_elements\<close> begins a match, or
  which is empty.\<close>

definition at_match :: "string \<Rightarrow> bool" where
  "at_match r = (case r of [] \<Rightarrow> True | c # _ \<Rightarrow> is_upper c)"

text \<open>
  The states the polling loop reads, one per round: the state of the first of the
  three answers of the round. A state is terminal when the loop returns on it.
  \<open>progress_reported\<close> says that in every round the answer read for
  \<open>current_progress\<close> carries a number whenever the answer read for \<open>max_progress\<close>
  carries a number other than zero.
\<close>

fun polled_states :: "job_progress list \<Rightarrow> string list" where
  "polled_states (j1 # j2 # j3 # answers) = state j1 # polled_states answers"
| "polled_states _ = []"

fun progress_reported :: "job_progress list \<Rightarrow> bool" where
  "progress_reported (j1 # j2 # j3 # answers) =
     ((truthy (max_progress j3) \<longrightarrow> current_progress j2 \<noteq> None)
      \<and> progress_reported answers)"
| "progress_reported _ = True"



section \<open>Properties of the feature normalizer\<close>

subsection \<open>Adduct normalization\<close>

lemma slice_to_last_butlast: "slice_to_last s = butlast s"
  by (simp add: slice_to_last_def butlast_conv_take)

text \<open>
  C1, as the code has it. For every adduct that contains a blacklisted token the
  normalizer returns mass \<open>mw - 1.00727663\<close> and charge \<open>-1\<close> when the input charge
  is negative, and mass \<open>mw + 1.00727663\<close> and charge \<open>+1\<close> otherwise. The adduct it
  returns is the replacement label without its last character: \<open>[M-H]-\<close> for a
  negative charge and \<open>[M+H]+\<close> otherwise, since the slice \<open>adduct[:-1]\<close> of the
  return statement applies to the replaced adduct as well.
\<close>

theorem normalize_adduct_blacklisted:
  "list_ex (\<lambda>d. str_in d adduct) invalid_adducts \<Longrightarrow>
   normalize_adduct m mw z adduct =
     (if z < 0 then (mw - 1.00727663, - 1, ''[M-H]-'')
      else (mw + 1.00727663, 1, ''[M+H]+''))"
  by (simp add: normalize_adduct_def slice_to_last_def)

theorem normalize_adduct_blacklisted_witness:
  "list_ex (\<lambda>d. str_in d ''2M-H-1'') invalid_adducts \<and>
   normalize_adduct 250 249 (- 1) ''2M-H-1'' = (249 - 1.00727663, - 1, ''[M-H]-'')"
  using normalize_adduct_blacklisted [where adduct = "''2M-H-1''" and m = 250 and mw = 249
      and z = "- 1"]
  by (simp add: invalid_adducts_def str_in_def sublist_code)

text \<open>The adduct returned for \<open>2M-H-1\<close> with charge \<open>-1\<close> is not \<open>[M-H]-1\<close>.\<close>

theorem normalize_adduct_blacklisted_counterexample:
  "normalize_adduct 250 249 (- 1) ''2M-H-1'' \<noteq> (249 - 1.00727663, - 1, ''[M-H]-1'')"
  by (simp add: normalize_adduct_def slice_to_last_def invalid_adducts_def str_in_def
      sublist_code)

text \<open>
  C10. For every adduct string without a blacklisted token the normalizer returns
  the input mass and charge unchanged and the adduct without its last character;
  for the empty adduct it returns the empty string. The function has no raising
  branch on a string adduct.
\<close>

theorem normalize_adduct_passthrough:
  "(\<not> list_ex (\<lambda>d. str_in d adduct) invalid_adducts \<longrightarrow>
      normalize_adduct m mw z adduct = (m, z, butlast adduct))
   \<and> normalize_adduct m mw z '''' = (m, z, '''')"
  by (simp add: normalize_adduct_def slice_to_last_butlast invalid_adducts_def str_in_def)

theorem normalize_adduct_passthrough_witness:
  "\<not> list_ex (\<lambda>d. str_in d ''[M+Na]+1'') invalid_adducts \<and>
   normalize_adduct 250 227 1 ''[M+Na]+1'' = (250, 1, ''[M+Na]+'')"
  using normalize_adduct_passthrough [where adduct = "''[M+Na]+1''" and m = 250 and mw = 227
      and z = 1]
  by (simp add: invalid_adducts_def str_in_def sublist_code)

subsection \<open>Elemental constraints\<close>

lemma upper_not_lower: "is_upper c \<Longrightarrow> \<not> is_lower c"
  by (auto simp: is_upper_def is_lower_def)

lemma upper_not_digit: "is_upper c \<Longrightarrow> \<not> is_digit c"
  by (auto simp: is_upper_def is_digit_def)

lemma digit_not_lower: "is_digit c \<Longrightarrow> \<not> is_lower c"
  by (auto simp: is_digit_def is_lower_def)

lemma lower_run_stops:
  assumes "list_all is_lower ls" "list_all is_digit d" "at_match r"
  shows "takeWhile is_lower (ls @ d @ r) = ls" "dropWhile is_lower (ls @ d @ r) = d @ r"
proof -
  have stop: "takeWhile is_lower (d @ r) = []"
    using assms(2,3)
    by (cases d; cases r) (auto simp: at_match_def upper_not_lower digit_not_lower)
  have all: "\<And>x. x \<in> set ls \<Longrightarrow> is_lower x"
    using assms(1) by (simp add: list_all_iff)
  show "takeWhile is_lower (ls @ d @ r) = ls"
    using all stop by (simp add: takeWhile_append2)
  have "dropWhile is_lower (d @ r) = d @ r"
    using stop by (metis takeWhile_dropWhile_id append_Nil)
  then show "dropWhile is_lower (ls @ d @ r) = d @ r"
    using all by (simp add: dropWhile_append2)
qed

lemma digit_run_stops:
  assumes "list_all is_digit d" "at_match r"
  shows "takeWhile is_digit (d @ r) = d" "dropWhile is_digit (d @ r) = r"
proof -
  have stop: "takeWhile is_digit r = []"
    using assms(2) by (cases r) (auto simp: at_match_def upper_not_digit)
  have all: "\<And>x. x \<in> set d \<Longrightarrow> is_digit x"
    using assms(1) by (simp add: list_all_iff)
  show "takeWhile is_digit (d @ r) = d"
    using all stop by (simp add: takeWhile_append2)
  have "dropWhile is_digit r = r"
    using stop by (metis takeWhile_dropWhile_id append_Nil)
  then show "dropWhile is_digit (d @ r) = r"
    using all by (simp add: dropWhile_append2)
qed

lemma at_match_tokens:
  "list_all element_token toks \<Longrightarrow> at_match (concat (map (\<lambda>(e, c). e @ c) toks))"
  by (cases toks) (auto simp: at_match_def split: list.splits)

text \<open>The scan of a text made of element tokens finds exactly these tokens.\<close>

lemma findall_elements_tokens:
  "list_all element_token toks \<Longrightarrow>
   findall_elements (concat (map (\<lambda>(e, c). e @ c) toks)) = toks"
proof (induction toks)
  case Nil
  then show ?case by simp
next
  case (Cons t toks)
  obtain e d where t: "t = (e, d)" by (cases t)
  from Cons.prems t obtain u ls where e: "e = u # ls" and u: "is_upper u"
    and ls: "list_all is_lower ls" and d: "list_all is_digit d"
    by (cases e) auto
  let ?r = "concat (map (\<lambda>(e, c). e @ c) toks)"
  have r: "at_match ?r" using Cons.prems by (simp add: at_match_tokens)
  have IH: "findall_elements ?r = toks" using Cons by simp
  have "findall_elements (u # (ls @ d @ ?r)) = (u # ls, d) # toks"
    using u IH lower_run_stops[OF ls d r] digit_run_stops[OF d r] by simp
  then show ?case by (simp add: t e)
qed

text \<open>
  C9. A constraint text written as a sequence of element symbols, each with an
  optional digit string behind it, is turned into the sequence \<open>Element[count]\<close>,
  with an empty bracket where the text gives no count. In particular
  \<open>HCNOP4F40\<close> becomes \<open>H[]C[]N[]O[]P[4]F[40]\<close>.
\<close>

theorem enforced_formula_constraints_tokens:
  "(list_all element_token toks \<longrightarrow>
      enforced_formula_constraints (concat (map (\<lambda>(e, c). e @ c) toks))
        = concat (map (\<lambda>(e, c). e @ ''['' @ c @ '']'') toks))
   \<and> enforced_formula_constraints ''HCNOP4F40'' = ''H[]C[]N[]O[]P[4]F[40]''"
proof
  show "list_all element_token toks \<longrightarrow>
      enforced_formula_constraints (concat (map (\<lambda>(e, c). e @ c) toks))
        = concat (map (\<lambda>(e, c). e @ ''['' @ c @ '']'') toks)"
    by (simp add: enforced_formula_constraints_def findall_elements_tokens)
  show "enforced_formula_constraints ''HCNOP4F40'' = ''H[]C[]N[]O[]P[4]F[40]''"
    by (simp add: enforced_formula_constraints_def is_upper_def is_lower_def is_digit_def)
qed

theorem enforced_formula_constraints_tokens_witness:
  "list_all element_token [(''C'', ''''), (''Cl'', ''2''), (''Na'', ''10'')] \<and>
   enforced_formula_constraints ''CCl2Na10'' = ''C[]Cl[2]Na[10]''"
  using enforced_formula_constraints_tokens
      [of "[(''C'', ''''), (''Cl'', ''2''), (''Na'', ''10'')]"]
  by (simp add: is_upper_def is_lower_def is_digit_def)

subsection \<open>Peak lists\<close>

lemma make_peaks_zip: "map (\<lambda>p. (mz p, intensity p)) (make_peaks ms is) = zip ms is"
  by (simp add: make_peaks_def comp_def)

lemma load_ms2_spectra_pairs:
  "\<forall>s\<in>set spectra. CollisionEnergies s \<noteq> [] \<Longrightarrow>
   \<exists>out. load_ms2_spectra fmt spectra = Inr out \<and>
     map (\<lambda>s. map (\<lambda>p. (mz p, intensity p)) (peaks s)) out
       = map (\<lambda>s. zip (Masses s) (Intensities s)) spectra"
proof (induction spectra)
  case Nil
  then show ?case by simp
next
  case (Cons s spectra)
  then obtain out where out: "load_ms2_spectra fmt spectra = Inr out"
    "map (\<lambda>s. map (\<lambda>p. (mz p, intensity p)) (peaks s)) out
       = map (\<lambda>s. zip (Masses s) (Intensities s)) spectra"
    by auto
  from Cons.prems obtain e es where "CollisionEnergies s = e # es"
    by (cases "CollisionEnergies s") auto
  then show ?case
    using out by (simp add: load_ms2_def make_peaks_zip)
qed

lemma load_feature_pairs:
  assumes "\<forall>s\<in>set (MS2Spectra feat). CollisionEnergies s \<noteq> []"
  shows "\<exists>f. load_feature fmt feat = Inr f \<and>
     map (\<lambda>p. (mz p, intensity p)) (peaks (mergedMs1 f))
       = zip (Masses (MS1Spectrum feat)) (Intensities (MS1Spectrum feat)) \<and>
     map (\<lambda>s. map (\<lambda>p. (mz p, intensity p)) (peaks s)) (ms2Spectra f)
       = map (\<lambda>s. zip (Masses s) (Intensities s)) (MS2Spectra feat)"
proof -
  from load_ms2_spectra_pairs[OF assms, of fmt] obtain out where
    "load_ms2_spectra fmt (MS2Spectra feat) = Inr out"
    "map (\<lambda>s. map (\<lambda>p. (mz p, intensity p)) (peaks s)) out
       = map (\<lambda>s. zip (Masses s) (Intensities s)) (MS2Spectra feat)"
    by blast
  then show ?thesis
    by (simp add: load_feature_def load_ms1_def make_peaks_zip split: prod.splits)
qed

text \<open>The only exception of the normalizer is the IndexError of a spectrum without
  collision energy.\<close>

lemma load_ms2_spectra_error:
  "load_ms2_spectra fmt spectra = Inl e \<Longrightarrow> e = IndexError"
  by (induction spectra) (auto simp: load_ms2_def split: list.splits sum.splits)

lemma load_features_error:
  "load_features fmt feats = Inl e \<Longrightarrow> e = IndexError"
  by (induction feats)
     (auto simp: load_feature_def dest: load_ms2_spectra_error split: prod.splits sum.splits)

text \<open>The normalizer returns its features only when every MS2 spectrum names a
  collision energy.\<close>

lemma load_ms2_spectra_returns:
  "load_ms2_spectra fmt spectra = Inr out \<Longrightarrow> \<forall>s\<in>set spectra. CollisionEnergies s \<noteq> []"
  by (induction spectra arbitrary: out)
     (auto simp: load_ms2_def split: list.splits sum.splits)

lemma load_features_returns:
  "load_features fmt feats = Inr out \<Longrightarrow>
   \<forall>feat\<in>set feats. \<forall>s\<in>set (MS2Spectra feat). CollisionEnergies s \<noteq> []"
  by (induction feats arbitrary: out)
     (auto simp: load_feature_def dest: load_ms2_spectra_returns split: prod.splits sum.splits)

lemma load_features_pairs:
  assumes "\<forall>feat\<in>set feats. \<forall>s\<in>set (MS2Spectra feat). CollisionEnergies s \<noteq> []"
  shows "\<exists>out. load_features fmt feats = Inr out \<and>
     map (\<lambda>f. map (\<lambda>p. (mz p, intensity p)) (peaks (mergedMs1 f))) out
       = map (\<lambda>feat. zip (Masses (MS1Spectrum feat)) (Intensities (MS1Spectrum feat))) feats \<and>
     map (\<lambda>f. map (\<lambda>s. map (\<lambda>p. (mz p, intensity p)) (peaks s)) (ms2Spectra f)) out
       = map (\<lambda>feat. map (\<lambda>s. zip (Masses s) (Intensities s)) (MS2Spectra feat)) feats"
  using assms
proof (induction feats)
  case Nil
  then show ?case by simp
next
  case (Cons feat feats)
  from Cons obtain out where out: "load_features fmt feats = Inr out"
     "map (\<lambda>f. map (\<lambda>p. (mz p, intensity p)) (peaks (mergedMs1 f))) out
       = map (\<lambda>feat. zip (Masses (MS1Spectrum feat)) (Intensities (MS1Spectrum feat))) feats"
     "map (\<lambda>f. map (\<lambda>s. map (\<lambda>p. (mz p, intensity p)) (peaks s)) (ms2Spectra f)) out
       = map (\<lambda>feat. map (\<lambda>s. zip (Masses s) (Intensities s)) (MS2Spectra feat)) feats"
    by auto
  from Cons.prems have "\<forall>s\<in>set (MS2Spectra feat). CollisionEnergies s \<noteq> []" by simp
  from load_feature_pairs[OF this, of fmt] obtain f where f: "load_feature fmt feat = Inr f"
     "map (\<lambda>p. (mz p, intensity p)) (peaks (mergedMs1 f))
       = zip (Masses (MS1Spectrum feat)) (Intensities (MS1Spectrum feat))"
     "map (\<lambda>s. map (\<lambda>p. (mz p, intensity p)) (peaks s)) (ms2Spectra f)
       = map (\<lambda>s. zip (Masses s) (Intensities s)) (MS2Spectra feat)"
    by blast
  show ?case using out f by simp
qed

text \<open>
  C5, as the code has it. The normalizer has no check of the array lengths and
  raises no length-mismatch error, whatever the lengths of the mass and intensity
  arrays. When every MS2 spectrum of the input names a collision energy, it returns
  the features, and every peak list, of the merged MS1 spectrum and of each MS2
  spectrum, holds the positional pairs of the mass and intensity arrays up to the
  end of the shorter array; the excess of the longer array is dropped. When some
  MS2 spectrum has no collision energy, it raises IndexError.
\<close>

theorem load_features_pairs_up_to_shorter:
  "(if \<exists>feat\<in>set feats. \<exists>s\<in>set (MS2Spectra feat). CollisionEnergies s = []
    then load_features fmt feats = Inl IndexError
    else \<exists>out. load_features fmt feats = Inr out \<and>
     map (\<lambda>f. map (\<lambda>p. (mz p, intensity p)) (peaks (mergedMs1 f))) out
       = map (\<lambda>feat. zip (Masses (MS1Spectrum feat)) (Intensities (MS1Spectrum feat))) feats \<and>
     map (\<lambda>f. map (\<lambda>s. map (\<lambda>p. (mz p, intensity p)) (peaks s)) (ms2Spectra f)) out
       = map (\<lambda>feat. map (\<lambda>s. zip (Masses s) (Intensities s)) (MS2Spectra feat)) feats)"
proof (cases "\<exists>feat\<in>set feats. \<exists>s\<in>set (MS2Spectra feat). CollisionEnergies s = []")
  case True
  have "load_features fmt feats = Inl IndexError"
  proof (cases "load_features fmt feats")
    case (Inl e)
    with load_features_error[OF Inl] show ?thesis by simp
  next
    case (Inr out)
    from load_features_returns[OF Inr] True show ?thesis by blast
  qed
  with True show ?thesis by simp
next
  case False
  then have "\<forall>feat\<in>set feats. \<forall>s\<in>set (MS2Spectra feat). CollisionEnergies s \<noteq> []"
    by blast
  from load_features_pairs[OF this, of fmt] False show ?thesis by simp
qed

text \<open>A feature whose MS1 spectrum has two masses and one intensity, and whose
  MS2 spectrum has one mass and two intensities: one peak each. The same feature
  without collision energy: IndexError.\<close>

theorem load_features_pairs_up_to_shorter_witness:
  "(\<exists>out. load_features \<lparr>fixed = (\<lambda>n x. ''''), str_int = (\<lambda>i. ''''), str_float = (\<lambda>x. '''')\<rparr>
       [\<lparr>Mass = 0, MW = 0, Charge = 1, Adduct = ''[M+H]+1'', ApexRT = 0, ExternalID = 1,
         LeftRT = 0, RightRT = 0,
         MS1Spectrum = \<lparr>Name = ''ms1'', MSLevel = 1, ScanNumber = 1,
                        Masses = [100, 200], Intensities = [5]\<rparr>,
         MS2Spectra = [\<lparr>Name = ''ms2'', MSLevel = 2, ScanNumber = 2,
                        Masses = [50], Intensities = [7, 8],
                        CollisionEnergies = [30], PrecursorMass = 100\<rparr>]\<rparr>] = Inr out \<and>
     map (\<lambda>f. map (\<lambda>p. (mz p, intensity p)) (peaks (mergedMs1 f))) out = [[(100, 5)]] \<and>
     map (\<lambda>f. map (\<lambda>s. map (\<lambda>p. (mz p, intensity p)) (peaks s)) (ms2Spectra f)) out
       = [[[(50, 7)]]])
   \<and> load_features \<lparr>fixed = (\<lambda>n x. ''''), str_int = (\<lambda>i. ''''), str_float = (\<lambda>x. '''')\<rparr>
       [\<lparr>Mass = 0, MW = 0, Charge = 1, Adduct = ''[M+H]+1'', ApexRT = 0, ExternalID = 1,
         LeftRT = 0, RightRT = 0,
         MS1Spectrum = \<lparr>Name = ''ms1'', MSLevel = 1, ScanNumber = 1,
                        Masses = [100, 200], Intensities = [5]\<rparr>,
         MS2Spectra = [\<lparr>Name = ''ms2'', MSLevel = 2, ScanNumber = 2,
                        Masses = [50], Intensities = [7, 8],
                        CollisionEnergies = [], PrecursorMass = 100\<rparr>]\<rparr>] = Inl IndexError"
proof
  show "\<exists>out. load_features \<lparr>fixed = (\<lambda>n x. ''''), str_int = (\<lambda>i. ''''), str_float = (\<lambda>x. '''')\<rparr>
       [\<lparr>Mass = 0, MW = 0, Charge = 1, Adduct = ''[M+H]+1'', ApexRT = 0, ExternalID = 1,
         LeftRT = 0, RightRT = 0,
         MS1Spectrum = \<lparr>Name = ''ms1'', MSLevel = 1, ScanNumber = 1,
                        Masses = [100, 200], Intensities = [5]\<rparr>,
         MS2Spectra = [\<lparr>Name = ''ms2'', MSLevel = 2, ScanNumber = 2,
                        Masses = [50], Intensities = [7, 8],
                        CollisionEnergies = [30], PrecursorMass = 100\<rparr>]\<rparr>] = Inr out \<and>
     map (\<lambda>f. map (\<lambda>p. (mz p, intensity p)) (peaks (mergedMs1 f))) out = [[(100, 5)]] \<and>
     map (\<lambda>f. map (\<lambda>s. map (\<lambda>p. (mz p, intensity p)) (peaks s)) (ms2Spectra f)) out
       = [[[(50, 7)]]]"
    using load_features_pairs_up_to_shorter
      [of "[\<lparr>Mass = 0, MW = 0, Charge = 1, Adduct = ''[M+H]+1'', ApexRT = 0, ExternalID = 1,
         LeftRT = 0, RightRT = 0,
         MS1Spectrum = \<lparr>Name = ''ms1'', MSLevel = 1, ScanNumber = 1,
                        Masses = [100, 200], Intensities = [5]\<rparr>,
         MS2Spectra = [\<lparr>Name = ''ms2'', MSLevel = 2, ScanNumber = 2,
                        Masses = [50], Intensities = [7, 8],
                        CollisionEnergies = [30], PrecursorMass = 100\<rparr>]\<rparr>]"
          "\<lparr>fixed = (\<lambda>n x. ''''), str_int = (\<lambda>i. ''''), str_float = (\<lambda>x. '''')\<rparr>"]
    by simp
  show "load_features \<lparr>fixed = (\<lambda>n x. ''''), str_int = (\<lambda>i. ''''), str_float = (\<lambda>x. '''')\<rparr>
       [\<lparr>Mass = 0, MW = 0, Charge = 1, Adduct = ''[M+H]+1'', ApexRT = 0, ExternalID = 1,
         LeftRT = 0, RightRT = 0,
         MS1Spectrum = \<lparr>Name = ''ms1'', MSLevel = 1, ScanNumber = 1,
                        Masses = [100, 200], Intensities = [5]\<rparr>,
         MS2Spectra = [\<lparr>Name = ''ms2'', MSLevel = 2, ScanNumber = 2,
                        Masses = [50], Intensities = [7, 8],
                        CollisionEnergies = [], PrecursorMass = 100\<rparr>]\<rparr>] = Inl IndexError"
    using load_features_pairs_up_to_shorter
      [of "[\<lparr>Mass = 0, MW = 0, Charge = 1, Adduct = ''[M+H]+1'', ApexRT = 0, ExternalID = 1,
         LeftRT = 0, RightRT = 0,
         MS1Spectrum = \<lparr>Name = ''ms1'', MSLevel = 1, ScanNumber = 1,
                        Masses = [100, 200], Intensities = [5]\<rparr>,
         MS2Spectra = [\<lparr>Name = ''ms2'', MSLevel = 2, ScanNumber = 2,
                        Masses = [50], Intensities = [7, 8],
                        CollisionEnergies = [], PrecursorMass = 100\<rparr>]\<rparr>]"
          "\<lparr>fixed = (\<lambda>n x. ''''), str_int = (\<lambda>i. ''''), str_float = (\<lambda>x. '''')\<rparr>"]
    by simp
qed

text \<open>Two masses and one intensity in the MS1 spectrum: the normalizer returns
  the feature with one peak, not an error.\<close>

theorem load_features_mismatch_counterexample:
  "load_features \<lparr>fixed = (\<lambda>n x. ''''), str_int = (\<lambda>i. ''''), str_float = (\<lambda>x. '''')\<rparr>
     [\<lparr>Mass = 0, MW = 0, Charge = 1, Adduct = ''[M+H]+1'', ApexRT = 0, ExternalID = 1,
       LeftRT = 0, RightRT = 0,
       MS1Spectrum = \<lparr>Name = ''ms1'', MSLevel = 1, ScanNumber = 1,
                      Masses = [100, 200], Intensities = [5]\<rparr>,
       MS2Spectra = []\<rparr>]
   = Inr [\<lparr>feature_name = ''@'', externalFeatureId = '''', ionMass = 0, charge = 1,
           detectedAdducts = [''[M+H]+''], rtStartSeconds = 0, rtEndSeconds = 0,
           mergedMs1 = \<lparr>name = ''ms1'', msLevel = 1, scanNumber = 1,
                        peaks = [\<lparr>mz = 100, intensity = 5\<rparr>]\<rparr>,
           ms2Spectra = []\<rparr>]"
  by (simp add: load_feature_def load_ms1_def make_peaks_def normalize_adduct_def
      slice_to_last_def invalid_adducts_def str_in_def sublist_code)

section \<open>Properties of the session manager\<close>

text \<open>
  C3, as the code has it. When the service is reached (attached to, or started
  after no running instance was found), reports no authenticated account, and the
  user name or the password is empty, \<open>login\<close> makes no login call, logs the
  warning and returns false; \<open>__enter__\<close> then raises the RuntimeError
  \<open>Unable to login to SIRIUS account!\<close>. Session acquisition fails.
\<close>

theorem enter_without_credentials:
  assumes "attach_to_sirius svc = Handle
             \<or> (attach_to_sirius svc = NoHandle \<and> start_sirius svc = Handle)"
    and "\<not> is_logged_in svc"
    and "account_username config = [] \<or> account_password config = []"
  shows "fst (enter config svc) = Inl (RuntimeError ''Unable to login to SIRIUS account!'')
     \<and> (''SIRIUS account credentials not specified!'', ''WARNING'')
           \<in> set (logged (snd (enter config svc)))
     \<and> ''login'' \<notin> set (calls (snd (enter config svc)))"
  using assms
  by (auto simp: enter_def enter_login_def login_def connect_def start_def log_line_def
      call_def Let_def)

theorem enter_without_credentials_witness:
  "fst (enter \<lparr>account_username = ''user'', account_password = '''', canopus_enabled = True,
              fingerprint_prediction_save = False, structure_db_search_enabled = True,
              structure_db_search_dbs = [''PUBCHEM'', ''HMDB''],
              structure_db_search_candidates = 10, ms_novelist_enabled = True,
              ms_novelist_candidates = 10\<rparr>
          \<lparr>attach_to_sirius = NoHandle, start_sirius = Handle, is_logged_in = False,
           login_raises = False\<rparr>)
     = Inl (RuntimeError ''Unable to login to SIRIUS account!'')
   \<and> calls (snd (enter \<lparr>account_username = ''user'', account_password = '''',
              canopus_enabled = True,
              fingerprint_prediction_save = False, structure_db_search_enabled = True,
              structure_db_search_dbs = [''PUBCHEM'', ''HMDB''],
              structure_db_search_candidates = 10, ms_novelist_enabled = True,
              ms_novelist_candidates = 10\<rparr>
          \<lparr>attach_to_sirius = NoHandle, start_sirius = Handle, is_logged_in = False,
           login_raises = False\<rparr>))
     = [''attach_to_sirius'', ''start_sirius'', ''is_logged_in'']"
  using enter_without_credentials
    [of "\<lparr>attach_to_sirius = NoHandle, start_sirius = Handle, is_logged_in = False,
           login_raises = False\<rparr>"
        "\<lparr>account_username = ''user'', account_password = '''', canopus_enabled = True,
              fingerprint_prediction_save = False, structure_db_search_enabled = True,
              structure_db_search_dbs = [''PUBCHEM'', ''HMDB''],
              structure_db_search_candidates = 10, ms_novelist_enabled = True,
              ms_novelist_candidates = 10\<rparr>"]
  by (simp add: enter_def enter_login_def login_def connect_def start_def log_line_def
      call_def Let_def)

text \<open>With the default, empty credentials and a running service that reports no
  authenticated account, session acquisition raises.\<close>

theorem enter_without_credentials_counterexample:
  "fst (enter \<lparr>account_username = '''', account_password = '''', canopus_enabled = True,
              fingerprint_prediction_save = False, structure_db_search_enabled = True,
              structure_db_search_dbs = [''PUBCHEM'', ''HMDB''],
              structure_db_search_candidates = 10, ms_novelist_enabled = True,
              ms_novelist_candidates = 10\<rparr>
          \<lparr>attach_to_sirius = Handle, start_sirius = Handle, is_logged_in = False,
           login_raises = False\<rparr>)
   = Inl (RuntimeError ''Unable to login to SIRIUS account!'')"
  by (simp add: enter_def enter_login_def login_def connect_def log_line_def call_def Let_def)

section \<open>Properties of the job orchestrator\<close>


text \<open>
  C4, as the code has it. When the states read in the first three rounds of the
  loop are RUNNING, RUNNING, DONE, the loop returns success in its third round,
  after exactly nine \<open>get_job\<close> calls: every round makes three calls (state,
  current progress, maximum progress), two of them after the call that read the
  state. The count does not depend on the answers that would follow: no call is
  made after the round that read DONE.
\<close>

theorem start_job_running_running_done:
  assumes "progress_reported answers"
    and "take 3 (polled_states answers) = [''RUNNING'', ''RUNNING'', ''DONE'']"
  shows "start_job False answers = Some (Inr True, 9)"
proof -
  from assms(2) obtain a1 a2 a3 r1 where 1: "answers = a1 # a2 # a3 # r1"
    by (cases answers rule: polled_states.cases) auto
  from assms(2) 1 obtain b1 b2 b3 r2 where 2: "r1 = b1 # b2 # b3 # r2"
    by (cases r1 rule: polled_states.cases) auto
  from assms(2) 1 2 obtain c1 c2 c3 r3 where 3: "r2 = c1 # c2 # c3 # r3"
    by (cases r2 rule: polled_states.cases) auto
  show ?thesis
    using assms by (simp add: 1 2 3 start_job_def)
qed

theorem start_job_running_running_done_witness:
  "start_job False
     [\<lparr>state = ''RUNNING'', current_progress = None, max_progress = None\<rparr>,
      \<lparr>state = ''RUNNING'', current_progress = None, max_progress = None\<rparr>,
      \<lparr>state = ''RUNNING'', current_progress = None, max_progress = None\<rparr>,
      \<lparr>state = ''RUNNING'', current_progress = Some 1, max_progress = Some 4\<rparr>,
      \<lparr>state = ''RUNNING'', current_progress = Some 2, max_progress = Some 4\<rparr>,
      \<lparr>state = ''RUNNING'', current_progress = Some 3, max_progress = Some 4\<rparr>,
      \<lparr>state = ''DONE'', current_progress = Some 4, max_progress = Some 4\<rparr>,
      \<lparr>state = ''DONE'', current_progress = Some 4, max_progress = Some 4\<rparr>,
      \<lparr>state = ''DONE'', current_progress = Some 4, max_progress = Some 4\<rparr>,
      \<lparr>state = ''DONE'', current_progress = Some 4, max_progress = Some 4\<rparr>]
   = Some (Inr True, 9)"
  using start_job_running_running_done
    [of "[\<lparr>state = ''RUNNING'', current_progress = None, max_progress = None\<rparr>,
      \<lparr>state = ''RUNNING'', current_progress = None, max_progress = None\<rparr>,
      \<lparr>state = ''RUNNING'', current_progress = None, max_progress = None\<rparr>,
      \<lparr>state = ''RUNNING'', current_progress = Some 1, max_progress = Some 4\<rparr>,
      \<lparr>state = ''RUNNING'', current_progress = Some 2, max_progress = Some 4\<rparr>,
      \<lparr>state = ''RUNNING'', current_progress = Some 3, max_progress = Some 4\<rparr>,
      \<lparr>state = ''DONE'', current_progress = Some 4, max_progress = Some 4\<rparr>,
      \<lparr>state = ''DONE'', current_progress = Some 4, max_progress = Some 4\<rparr>,
      \<lparr>state = ''DONE'', current_progress = Some 4, max_progress = Some 4\<rparr>,
      \<lparr>state = ''DONE'', current_progress = Some 4, max_progress = Some 4\<rparr>]"]
  by (simp add: truthy_def)

text \<open>
  Three answers RUNNING, RUNNING, DONE are used up by the first round, which reads
  RUNNING: the loop has not returned. When every round reads its state from the
  sequence RUNNING, RUNNING, DONE, the loop returns after nine calls, not three.
\<close>

theorem start_job_three_polls_counterexample:
  "start_job False
     [\<lparr>state = ''RUNNING'', current_progress = Some 0, max_progress = Some 10\<rparr>,
      \<lparr>state = ''RUNNING'', current_progress = Some 5, max_progress = Some 10\<rparr>,
      \<lparr>state = ''DONE'', current_progress = Some 10, max_progress = Some 10\<rparr>] = None
   \<and> start_job False
     [\<lparr>state = ''RUNNING'', current_progress = Some 0, max_progress = Some 10\<rparr>,
      \<lparr>state = ''RUNNING'', current_progress = Some 0, max_progress = Some 10\<rparr>,
      \<lparr>state = ''RUNNING'', current_progress = Some 0, max_progress = Some 10\<rparr>,
      \<lparr>state = ''RUNNING'', current_progress = Some 5, max_progress = Some 10\<rparr>,
      \<lparr>state = ''RUNNING'', current_progress = Some 5, max_progress = Some 10\<rparr>,
      \<lparr>state = ''RUNNING'', current_progress = Some 5, max_progress = Some 10\<rparr>,
      \<lparr>state = ''DONE'', current_progress = Some 10, max_progress = Some 10\<rparr>,
      \<lparr>state = ''DONE'', current_progress = Some 10, max_progress = Some 10\<rparr>,
      \<lparr>state = ''DONE'', current_progress = Some 10, max_progress = Some 10\<rparr>]
     = Some (Inr True, 9)"
  by (simp add: start_job_def truthy_def)





section \<open>Properties of the result harvester\<close>

subsection \<open>Rank cap\<close>






















subsection \<open>Tree IDs\<close>

text \<open>The tables of one feature carry the tree IDs from the counter on, one per
  table, and the counter ends behind the last of them.\<close>

lemma class_tables_ids:
  "class_tables ext_id cs t = (groups, t') \<Longrightarrow>
   t' = t + int (length groups)
   \<and> (\<forall>i<length groups. \<forall>row\<in>set (groups ! i). TreeID (snd row) = t + int i)"
proof (induction cs arbitrary: t groups t')
  case Nil
  then show ?case by simp
next
  case (Cons c cs)
  show ?case
  proof (cases "compoundClasses c")
    case None
    with Cons show ?thesis by simp
  next
    case (Some lineage)
    obtain gs t2 where rest: "class_tables ext_id cs (t + 1) = (gs, t2)"
      by (cases "class_tables ext_id cs (t + 1)")
    let ?g = "assign (\<lambda>n. \<lparr>class_ExternalID = ext_id, SiriusFormulaID = formulaId c,
                TreeID = t, class_node = n\<rparr>) (DataFrame lineage)"
    from Cons.prems Some rest have g: "groups = ?g # gs" and t': "t' = t2"
      by simp_all
    from Cons.IH[OF rest] have t2: "t2 = t + 1 + int (length gs)"
      and ids: "\<forall>i<length gs. \<forall>row\<in>set (gs ! i). TreeID (snd row) = t + 1 + int i"
      by simp_all
    have first: "\<forall>row\<in>set ?g. TreeID (snd row) = t"
      by (auto simp: assign_def)
    have "\<forall>i<length groups. \<forall>row\<in>set (groups ! i). TreeID (snd row) = t + int i"
    proof (intro allI impI)
      fix i assume i: "i < length groups"
      show "\<forall>row\<in>set (groups ! i). TreeID (snd row) = t + int i"
      proof (cases i)
        case 0
        with first g show ?thesis by simp
      next
        case (Suc k)
        with i g have "k < length gs" by simp
        with ids Suc g show ?thesis by simp
      qed
    qed
    with t2 t' g show ?thesis by simp
  qed
qed

lemma retrieve_classes_ids:
  assumes "retrieve_classes jb ext_id cs t = (tables, t')"
  shows "t' = t + int (length (case tables of None \<Rightarrow> [] | Some ts \<Rightarrow> ts))
   \<and> (\<forall>i<length (case tables of None \<Rightarrow> [] | Some ts \<Rightarrow> ts).
        \<forall>row\<in>set ((case tables of None \<Rightarrow> [] | Some ts \<Rightarrow> ts) ! i).
          TreeID (snd row) = t + int i)"
proof (cases "\<not> canopus_params_enabled jb \<or> cs = []")
  case True
  with assms show ?thesis by (auto simp: retrieve_classes_def split: if_splits)
next
  case False
  obtain gs t2 where ct: "class_tables ext_id cs t = (gs, t2)"
    by (cases "class_tables ext_id cs t")
  with False assms have "tables = Some gs" "t' = t2"
    by (simp_all add: retrieve_classes_def)
  with class_tables_ids[OF ct] show ?thesis by simp
qed

text \<open>The invariant of the harvest loop: the \<open>i\<close>-th table of the classes buffer
  carries tree ID \<open>1 + i\<close> in all its rows, and the counter is one more than the
  number of tables.\<close>

lemma retrieve_loop_tree_ids:
  assumes "retrieve_loop config jb feats b = Inr b'"
    and "class_tree_id b = 1 + int (length (classes b))"
    and "\<forall>i<length (classes b). \<forall>row\<in>set (classes b ! i). TreeID (snd row) = 1 + int i"
  shows "class_tree_id b' = 1 + int (length (classes b'))
     \<and> (\<forall>i<length (classes b'). \<forall>row\<in>set (classes b' ! i). TreeID (snd row) = 1 + int i)"
  using assms
proof (induction feats arbitrary: b)
  case Nil
  then show ?case by simp
next
  case (Cons feature rest)
  show ?case
  proof (cases "formula_annotation feature")
    case None
    with Cons.prems have "retrieve_loop config jb rest b = Inr b'" by simp
    from Cons.IH[OF this Cons.prems(2,3)] show ?thesis .
  next
    case (Some top_formula_id)
    let ?ext = "external_feature_id feature"
    from Cons.prems(1) Some obtain table top_annotation where
      rf: "retrieve_formulas config ?ext (formula_candidates feature)
             (retrieve_annotation ?ext feature) top_formula_id = Inr (table, top_annotation)"
      by (auto split: sum.splits)
    obtain tables tree_id where
      rc: "retrieve_classes jb ?ext (formula_candidates feature) (class_tree_id b)
             = (tables, tree_id)"
      by (cases "retrieve_classes jb ?ext (formula_candidates feature) (class_tree_id b)")
    let ?new = "case tables of None \<Rightarrow> [] | Some ts \<Rightarrow> ts"
    let ?b = "\<lparr>annotations = annotations b @ [top_annotation],
               formulas = formulas b @ [table],
               structures = append_some (structures b)
                 (retrieve_structures config jb ?ext (structure_candidates feature)),
               classes = classes b @ ?new,
               denovo = append_some (denovo b)
                 (retrieve_denovo config jb ?ext (de_novo_structure_candidates feature)),
               class_tree_id = tree_id\<rparr>"
    from Cons.prems(1) Some rf rc have loop: "retrieve_loop config jb rest ?b = Inr b'"
      by simp
    from retrieve_classes_ids[OF rc] have
      tid: "tree_id = class_tree_id b + int (length ?new)" and
      new: "\<forall>i<length ?new. \<forall>row\<in>set (?new ! i). TreeID (snd row) = class_tree_id b + int i"
      by simp_all
    have counter: "class_tree_id ?b = 1 + int (length (classes ?b))"
      using tid Cons.prems(2) by simp
    have ids: "\<forall>i<length (classes ?b). \<forall>row\<in>set (classes ?b ! i). TreeID (snd row) = 1 + int i"
    proof (intro allI impI)
      fix i assume i: "i < length (classes ?b)"
      show "\<forall>row\<in>set (classes ?b ! i). TreeID (snd row) = 1 + int i"
      proof (cases "i < length (classes b)")
        case True
        with Cons.prems(3) show ?thesis by (simp add: nth_append)
      next
        case False
        with i have k: "i - length (classes b) < length ?new" by simp
        from False have "classes ?b ! i = ?new ! (i - length (classes b))"
          by (simp add: nth_append)
        moreover from new k have
          "\<forall>row\<in>set (?new ! (i - length (classes b))).
             TreeID (snd row) = class_tree_id b + int (i - length (classes b))"
          by blast
        ultimately show ?thesis
          using False Cons.prems(2) by simp
      qed
    qed
    from Cons.IH[OF loop counter ids] show ?thesis .
  qed
qed

text \<open>The loop completes whenever fingerprint persistence is off: the only
  exception it can raise is the one of \<open>.item()\<close>.\<close>

lemma retrieve_loop_completes:
  "\<not> fingerprint_prediction_save config \<Longrightarrow> \<exists>b'. retrieve_loop config jb feats b = Inr b'"
proof (induction feats arbitrary: b)
  case Nil
  then show ?case by simp
next
  case (Cons feature rest)
  then show ?case
    by (cases "formula_annotation feature")
       (auto simp: retrieve_formulas_def Let_def split: prod.splits)
qed

text \<open>
  C8. Across one harvest run that completes, the lineage groups of the classes
  buffer, in harvest order, carry the tree IDs \<open>1, 2, 3, \<dots>\<close>: every row of the
  \<open>i\<close>-th group (counted from zero) has tree ID \<open>1 + i\<close>. So the IDs start at 1,
  all rows of one group carry the same ID, and the rows of a later group carry a
  strictly greater ID than the rows of an earlier one: no ID is shared by two
  groups.
\<close>

theorem tree_ids_increase_per_lineage_group:
  assumes "retrieve_loop config jb features init_buffers = Inr b"
  shows "(\<forall>i<length (classes b). \<forall>row\<in>set (classes b ! i). TreeID (snd row) = 1 + int i)
     \<and> (\<forall>i j. i < j \<and> j < length (classes b) \<longrightarrow>
          (\<forall>r\<in>set (classes b ! i). \<forall>r'\<in>set (classes b ! j).
             TreeID (snd r) < TreeID (snd r')))"
proof -
  have ids: "\<forall>i<length (classes b). \<forall>row\<in>set (classes b ! i). TreeID (snd row) = 1 + int i"
    using retrieve_loop_tree_ids[OF assms] by (simp add: init_buffers_def)
  have "\<forall>i j. i < j \<and> j < length (classes b) \<longrightarrow>
          (\<forall>r\<in>set (classes b ! i). \<forall>r'\<in>set (classes b ! j).
             TreeID (snd r) < TreeID (snd r'))"
  proof (intro allI impI ballI)
    fix i j r r'
    assume ij: "i < j \<and> j < length (classes b)"
      and r: "r \<in> set (classes b ! i)" and r': "r' \<in> set (classes b ! j)"
    from ij have "i < length (classes b)" by simp
    with ids r have "TreeID (snd r) = 1 + int i" by blast
    moreover from ids ij r' have "TreeID (snd r') = 1 + int j" by blast
    ultimately show "TreeID (snd r) < TreeID (snd r')" using ij by simp
  qed
  with ids show ?thesis by blast
qed

text \<open>Two features, each with one formula candidate whose lineage has three
  levels: the first group carries tree ID 1, the second tree ID 2.\<close>

theorem tree_ids_increase_per_lineage_group_witness:
  "(case retrieve_loop
       \<lparr>account_username = '''', account_password = '''', canopus_enabled = True,
        fingerprint_prediction_save = False, structure_db_search_enabled = True,
              structure_db_search_dbs = [''PUBCHEM'', ''HMDB''],
        structure_db_search_candidates = 10, ms_novelist_enabled = True,
        ms_novelist_candidates = 10\<rparr>
       \<lparr>structure_db_search_params_enabled = True, canopus_params_enabled = True,
        ms_novelist_params_enabled = True\<rparr>
       [\<lparr>external_feature_id = ''1'', feature_label = ''A'', formula_annotation = Some ''10'',
         formula_candidates =
           [\<lparr>formulaId = ''10'', predictedFingerprint = None,
             compoundClasses = Some [''kingdom'', ''superclass'', ''class''],
             formula_data = ()\<rparr>],
         structure_candidates = ([] :: unit structure_candidate list),
         de_novo_structure_candidates = []\<rparr>,
        \<lparr>external_feature_id = ''2'', feature_label = ''B'', formula_annotation = Some ''20'',
         formula_candidates =
           [\<lparr>formulaId = ''20'', predictedFingerprint = None,
             compoundClasses = Some [''kingdom'', ''superclass'', ''class''],
             formula_data = ()\<rparr>],
         structure_candidates = [],
         de_novo_structure_candidates = []\<rparr>]
       init_buffers of
     Inl e \<Rightarrow> False
   | Inr b \<Rightarrow> map (map (TreeID \<circ> snd)) (classes b) = [[1, 1, 1], [2, 2, 2]])"
  using tree_ids_increase_per_lineage_group
    [where config = "\<lparr>account_username = '''', account_password = '''', canopus_enabled = True,
        fingerprint_prediction_save = False, structure_db_search_enabled = True,
              structure_db_search_dbs = [''PUBCHEM'', ''HMDB''],
        structure_db_search_candidates = 10, ms_novelist_enabled = True,
        ms_novelist_candidates = 10\<rparr>"
      and jb = "\<lparr>structure_db_search_params_enabled = True, canopus_params_enabled = True,
        ms_novelist_params_enabled = True\<rparr>"
      and features = "[\<lparr>external_feature_id = ''1'', feature_label = ''A'',
         formula_annotation = Some ''10'',
         formula_candidates =
           [\<lparr>formulaId = ''10'', predictedFingerprint = None,
             compoundClasses = Some [''kingdom'', ''superclass'', ''class''],
             formula_data = ()\<rparr>],
         structure_candidates = ([] :: unit structure_candidate list),
         de_novo_structure_candidates = []\<rparr>,
        \<lparr>external_feature_id = ''2'', feature_label = ''B'', formula_annotation = Some ''20'',
         formula_candidates =
           [\<lparr>formulaId = ''20'', predictedFingerprint = None,
             compoundClasses = Some [''kingdom'', ''superclass'', ''class''],
             formula_data = ()\<rparr>],
         structure_candidates = [],
         de_novo_structure_candidates = []\<rparr>]"]
  by (simp add: retrieve_formulas_def retrieve_classes_def retrieve_structures_def
      retrieve_denovo_def retrieve_annotation_def init_buffers_def DataFrame_def assign_def
      append_some_def Let_def)

subsection \<open>Features without formula candidates\<close>

text \<open>When no feature has formula candidates the loop completes, and the formulas
  buffer receives the tuple \<open>(None, None)\<close> once for every feature with a formula
  annotation.\<close>

lemma retrieve_loop_without_candidates:
  "\<forall>f\<in>set feats. formula_candidates f = [] \<Longrightarrow>
   \<exists>b'. retrieve_loop config jb feats b = Inr b' \<and>
     formulas b' = formulas b
       @ replicate (length (filter (\<lambda>f. formula_annotation f \<noteq> None) feats)) NonePair"
proof (induction feats arbitrary: b)
  case Nil
  then show ?case by simp
next
  case (Cons feature rest)
  then have rest: "\<forall>f\<in>set rest. formula_candidates f = []"
    and none: "formula_candidates feature = []"
    by simp_all
  show ?case
  proof (cases "formula_annotation feature")
    case None
    with Cons.IH[OF rest, of b] show ?thesis by simp
  next
    case (Some top_formula_id)
    have rc: "retrieve_classes jb (external_feature_id feature) (formula_candidates feature)
               (class_tree_id b) = (None, class_tree_id b)"
      using none by (simp add: retrieve_classes_def)
    let ?b = "\<lparr>annotations = annotations b
                 @ [retrieve_annotation (external_feature_id feature) feature],
               formulas = formulas b @ [NonePair],
               structures = append_some (structures b)
                 (retrieve_structures config jb (external_feature_id feature)
                    (structure_candidates feature)),
               classes = classes b @ [],
               denovo = append_some (denovo b)
                 (retrieve_denovo config jb (external_feature_id feature)
                    (de_novo_structure_candidates feature)),
               class_tree_id = class_tree_id b\<rparr>"
    have step: "retrieve_loop config jb (feature # rest) b = retrieve_loop config jb rest ?b"
      using Some rc by (simp add: none retrieve_formulas_def DataFrame_def)
    from Cons.IH[OF rest, of ?b] obtain b' where
      "retrieve_loop config jb rest ?b = Inr b'"
      "formulas b' = formulas ?b
         @ replicate (length (filter (\<lambda>f. formula_annotation f \<noteq> None) rest)) NonePair"
      by blast
    with step Some show ?thesis by simp
  qed
qed

lemma finalize_formulas_none_pairs:
  "0 < k \<Longrightarrow> finalize_formulas (replicate k NonePair) = Inl TypeError"
  by (cases k) (simp_all add: finalize_formulas_def pandas_concat_def)

text \<open>
  The harvest of a project in which no feature has formula candidates and some
  feature has a formula annotation raises TypeError (fingerprint persistence off):
  \<open>pandas.concat\<close> in \<open>_finalize_formulas\<close> meets the tuple \<open>(None, None)\<close>.
\<close>

lemma retrieve_results_raises_without_candidates:
  assumes "\<forall>f\<in>set feats. formula_candidates f = []"
    and "\<exists>f\<in>set feats. formula_annotation f \<noteq> None"
    and "\<not> fingerprint_prediction_save config"
  shows "retrieve_results config jb fingerprint_tables feats = Inl TypeError"
proof -
  let ?k = "length (filter (\<lambda>f. formula_annotation f \<noteq> None) feats)"
  from retrieve_loop_without_candidates[OF assms(1), of config jb init_buffers]
  obtain b where b: "retrieve_loop config jb feats init_buffers = Inr b"
    "formulas b = replicate ?k NonePair"
    by (auto simp: init_buffers_def)
  from assms(2) have "filter (\<lambda>f. formula_annotation f \<noteq> None) feats \<noteq> []"
    by (simp add: filter_empty_conv)
  then have "0 < ?k" by simp
  then have "finalize_formulas (formulas b) = Inl TypeError"
    using b(2) by (simp add: finalize_formulas_none_pairs)
  with b(1) assms(3) show ?thesis
    by (simp add: retrieve_results_def retrieve_fingerprints_def)
qed

text \<open>Without any annotated feature the formulas table is \<open>None\<close> and no formulas
  file is written.\<close>

lemma retrieve_loop_without_annotations:
  "\<forall>f\<in>set feats. formula_annotation f = None \<Longrightarrow> retrieve_loop config jb feats b = Inr b"
  by (induction feats) simp_all

lemma harvest_without_annotations:
  assumes "\<forall>f\<in>set feats. formula_annotation f = None"
    and "\<not> fingerprint_prediction_save config"
  shows "\<exists>res. retrieve_results config jb fingerprint_tables feats = Inr res
     \<and> SiriusFormulas res = None
     \<and> ''sirius_formulas.json'' \<notin> set (export_results fingerprints_path res)"
  using assms
  by (simp add: retrieve_results_def retrieve_loop_without_annotations init_buffers_def
      retrieve_fingerprints_def finalize_formulas_def finalize_annotations_def
      finalize_classes_def finalize_structures_def finalize_denovo_def export_results_def
      artifact_def)

text \<open>
  C2 on the code. A project with one feature that has a formula annotation and no
  formula candidates: the harvest yields zero candidate rows for every feature, and
  \<open>retrieve_results\<close> raises TypeError instead of returning the formulas table
  \<open>None\<close>; the run ends there and exports nothing.
\<close>

theorem retrieve_results_empty_harvest_raises:
  "retrieve_results
     \<lparr>account_username = '''', account_password = '''', canopus_enabled = True,
      fingerprint_prediction_save = False, structure_db_search_enabled = True,
              structure_db_search_dbs = [''PUBCHEM'', ''HMDB''],
      structure_db_search_candidates = 10, ms_novelist_enabled = True,
      ms_novelist_candidates = 10\<rparr>
     \<lparr>structure_db_search_params_enabled = True, canopus_params_enabled = True,
      ms_novelist_params_enabled = True\<rparr>
     (\<lambda>anns. Inr (None :: unit option, None :: unit option))
     [\<lparr>external_feature_id = ''1'', feature_label = ''A'', formula_annotation = Some ''10'',
       formula_candidates = ([] :: (string, unit) formula_candidate list),
       structure_candidates = ([] :: unit structure_candidate list),
       de_novo_structure_candidates = []\<rparr>]
   = Inl TypeError
   \<and> harvest_and_export
     \<lparr>account_username = '''', account_password = '''', canopus_enabled = True,
      fingerprint_prediction_save = False, structure_db_search_enabled = True,
              structure_db_search_dbs = [''PUBCHEM'', ''HMDB''],
      structure_db_search_candidates = 10, ms_novelist_enabled = True,
      ms_novelist_candidates = 10\<rparr>
     \<lparr>structure_db_search_params_enabled = True, canopus_params_enabled = True,
      ms_novelist_params_enabled = True\<rparr>
     (\<lambda>anns. Inr (None :: unit option, None :: unit option))
     ''fingerprints''
     [\<lparr>external_feature_id = ''1'', feature_label = ''A'', formula_annotation = Some ''10'',
       formula_candidates = ([] :: (string, unit) formula_candidate list),
       structure_candidates = ([] :: unit structure_candidate list),
       de_novo_structure_candidates = []\<rparr>]
   = Inl TypeError"
  by (simp add: harvest_and_export_def retrieve_results_def retrieve_formulas_def
      retrieve_classes_def retrieve_structures_def retrieve_denovo_def
      retrieve_annotation_def retrieve_fingerprints_def init_buffers_def DataFrame_def
      append_some_def finalize_formulas_def pandas_concat_def Let_def)

end
